theory Spec2Isabelle
  imports Main "HOL-Library.AList"
begin

section \<open>Values that cross the strategy's boundary\<close>

text \<open>
  The strategy of \<^verbatim>\<open>src/src/index.ts\<close> is one class, \<^verbatim>\<open>TwilioStrategy\<close>, whose
  \<^verbatim>\<open>authenticate\<close> method is the whole transition. Everything it touches beyond its own
  control flow is a collaborator: the session, the request, the provider functions, the
  phone formatter, the \<^verbatim>\<open>verify\<close> callback and the two methods \<^verbatim>\<open>failure\<close> and
  \<^verbatim>\<open>success\<close> it inherits. Promises are awaited one after the other, so an asynchronous
  call is modelled by its settled result: \<open>Inr\<close> a value, \<open>Inl\<close> what it rejected with.
\<close>

type_synonym key = string

text \<open>
  What a session slot can hold: the principal (an opaque record of the caller's, hence a
  truthy JavaScript object) or a string (the pending phone, a failure message).
\<close>

datatype 'u sval = Principal 'u | Text string

datatype 'u slot = Stored "'u sval" | Flashed "'u sval"

text \<open>
  A session is a JavaScript \<^verbatim>\<open>Map\<close>: keys in insertion order, one slot per key.
\<close>

type_synonym 'u session = "(key \<times> 'u slot) list"

text \<open>
  A value of a submitted form field (\<^verbatim>\<open>FormDataEntryValue\<close>): a string or a file.
\<close>

datatype form_value = FString string | FFile

text \<open>
  Everything that can be thrown inside \<^verbatim>\<open>authenticate\<close>. The \<^verbatim>\<open>catch\<close> block tells
  them apart by \<^verbatim>\<open>instanceof Response\<close> with its status, by \<^verbatim>\<open>instanceof Error\<close> with
  its message, and treats the rest as unknown. \<open>Response\<close> carries the status, the
  \<^verbatim>\<open>Location\<close> header and the \<^verbatim>\<open>Set-Cookie\<close> header; \<open>Error\<close> and
  \<open>AuthorizationError\<close> (the typed error of the failure transition, itself an
  \<^verbatim>\<open>Error\<close>) carry the message and the cause; \<open>Value\<close> is any other thrown value,
  kept as the text \<^verbatim>\<open>JSON.stringify(error, null, 2)\<close> renders it to.
\<close>

datatype 'u thrown =
    Response nat "string option" "'u session option"
  | Error string "'u thrown option"
  | AuthorizationError string "'u thrown option"
  | Value string

fun is_redirect_302 :: "'u thrown \<Rightarrow> bool" where
  "is_redirect_302 (Response status location header) = (status = 302)"
| "is_redirect_302 _ = False"

fun instanceof_Error :: "'u thrown \<Rightarrow> bool" where
  "instanceof_Error (Error m c) = True"
| "instanceof_Error (AuthorizationError m c) = True"
| "instanceof_Error _ = False"

fun message :: "'u thrown \<Rightarrow> string" where
  "message (Error m c) = m"
| "message (AuthorizationError m c) = m"
| "message _ = []"

text \<open>
  \<^verbatim>\<open>JSON.stringify\<close> of a thrown value that is not an \<^verbatim>\<open>Error\<close>: a \<^verbatim>\<open>Response\<close>
  has no enumerable property of its own.
\<close>

fun JSON_stringify :: "'u thrown \<Rightarrow> string" where
  "JSON_stringify (Value j) = j"
| "JSON_stringify _ = ''{}''"

text \<open>
  \<^verbatim>\<open>redirect(url, { headers: { "Set-Cookie": header } })\<close>: a response of status 302.
\<close>

definition redirect :: "string \<Rightarrow> 'u session \<Rightarrow> 'u thrown" where
  "redirect url header = Response 302 (Some url) (Some header)"

section \<open>Request, options and session store\<close>

text \<open>
  Of a request the transition reads the session its \<^verbatim>\<open>Cookie\<close> header holds and, once,
  the submitted form (\<^verbatim>\<open>request.formData()\<close>, which rejects on a body that is no form).
\<close>

record 'u request =
  Cookie :: "'u session"
  formData :: "'u thrown + (string \<times> form_value) list"

text \<open>
  \<^verbatim>\<open>AuthenticateOptions\<close>: the fields the transition reads.
\<close>

record options =
  sessionKey :: key
  sessionErrorKey :: key
  successRedirect :: "string option"
  failureRedirect :: "string option"

text \<open>
  Modelled from the spec: the session handle and the session storage
  (\<^verbatim>\<open>Session\<close> and \<^verbatim>\<open>SessionStorage\<close> of the server runtime, which \<^verbatim>\<open>index.ts\<close> only
  imports). The spec's contract of section 4.3: \<^verbatim>\<open>get\<close>, \<^verbatim>\<open>set\<close>, \<^verbatim>\<open>flash\<close> (a value
  visible on the next read only, then cleared), \<^verbatim>\<open>unset\<close> and \<^verbatim>\<open>persist\<close>. The
  serialized cookie is taken to be the session's content.
\<close>

definition getSession :: "'u request \<Rightarrow> 'u session" where
  "getSession request = Cookie request"

definition commitSession :: "'u session \<Rightarrow> 'u session" where
  "commitSession session = session"

definition session_get :: "key \<Rightarrow> 'u session \<Rightarrow> 'u sval option \<times> 'u session" where
  "session_get k s =
     (case map_of s k of
        None \<Rightarrow> (None, s)
      | Some (Stored v) \<Rightarrow> (Some v, s)
      | Some (Flashed v) \<Rightarrow> (Some v, AList.delete k s))"

definition session_set :: "key \<Rightarrow> 'u sval \<Rightarrow> 'u session \<Rightarrow> 'u session" where
  "session_set k v s = AList.update k (Stored v) s"

definition session_flash :: "key \<Rightarrow> 'u sval \<Rightarrow> 'u session \<Rightarrow> 'u session" where
  "session_flash k v s = AList.update k (Flashed v) s"

definition session_unset :: "key \<Rightarrow> 'u session \<Rightarrow> 'u session" where
  "session_unset k s = AList.delete k s"

section \<open>JavaScript truthiness and the submitted form\<close>

text \<open>
  \<^verbatim>\<open>!x\<close> for an optional string: \<^verbatim>\<open>undefined\<close> and the empty string are falsy.
\<close>

definition falsy :: "string option \<Rightarrow> bool" where
  "falsy x = (x = None \<or> x = Some [])"

text \<open>
  The string an optional string is once it has been tested truthy.
\<close>

fun string_of :: "string option \<Rightarrow> string" where
  "string_of (Some s) = s"
| "string_of None = []"

fun truthy_value :: "form_value \<Rightarrow> bool" where
  "truthy_value (FString s) = (s \<noteq> [])"
| "truthy_value FFile = True"

fun truthy_sval :: "'u sval \<Rightarrow> bool" where
  "truthy_sval (Principal u) = True"
| "truthy_sval (Text s) = (s \<noteq> [])"

text \<open>
  \<^verbatim>\<open>String(v)\<close> of a form value.
\<close>

fun String :: "form_value \<Rightarrow> string" where
  "String (FString s) = s"
| "String FFile = ''[object File]''"

text \<open>
  \<^verbatim>\<open>Object.fromEntries(formData.entries())\<close>: of two entries of one name the later wins.
\<close>

definition fromEntries :: "(string \<times> form_value) list \<Rightarrow> string \<rightharpoonup> form_value" where
  "fromEntries entries = map_of (rev entries)"

section \<open>The strategy and its defaults\<close>

type_synonym 'u SendCodeFunction = "string \<Rightarrow> 'u thrown + unit"

text \<open>
  The argument object is \<^verbatim>\<open>{ code, phone }\<close>; the result is the \<^verbatim>\<open>status\<close> of the
  verification check the provider returned.
\<close>

type_synonym 'u ValidateCodeFunction = "string \<Rightarrow> string \<Rightarrow> 'u thrown + string"

type_synonym 'u FormatPhoneNumberFunction = "string \<Rightarrow> 'u thrown + string"

text \<open>
  \<^verbatim>\<open>StrategyVerifyCallback\<close>: the user-resolution callback, called with
  \<^verbatim>\<open>{ phone, formData, request }\<close>.
\<close>

type_synonym 'u VerifyCallback =
  "string \<Rightarrow> (string \<times> form_value) list \<Rightarrow> 'u request \<Rightarrow> 'u thrown + 'u"

text \<open>
  The two calls the strategy makes on the Twilio client, by service:
  \<^verbatim>\<open>verifications.create({ to, channel })\<close> and \<^verbatim>\<open>verificationChecks.create({ to, code })\<close>.
\<close>

record 'u Twilio =
  verifications_create :: "string \<Rightarrow> string \<Rightarrow> string \<Rightarrow> 'u thrown + unit"
  verificationChecks_create :: "string \<Rightarrow> string \<Rightarrow> string \<Rightarrow> 'u thrown + string"

text \<open>
  The result of the \<^verbatim>\<open>phone\<close> package.
\<close>

record phone_result =
  isValid :: bool
  phoneNumber :: string

record 'u TwilioStrategyOptions =
  accountSID :: string
  authToken :: string
  serviceSID :: string
  sendCode_option :: "'u SendCodeFunction option"
  validateCode_option :: "'u ValidateCodeFunction option"
  formatPhoneNumber_option :: "'u FormatPhoneNumberFunction option"

record 'u TwilioStrategy =
  sessionPhoneKey :: key
  sendCode :: "'u SendCodeFunction"
  validateCode :: "'u ValidateCodeFunction"
  formatPhoneNumber :: "'u FormatPhoneNumberFunction"
  verify :: "'u VerifyCallback"

definition invalid_code_message :: string where
  "invalid_code_message = ''Sorry, that code is invalid. Please try again.''"

definition defaultSendCode :: "'u Twilio \<Rightarrow> string \<Rightarrow> 'u SendCodeFunction" where
  "defaultSendCode client service phone = verifications_create client service phone ''sms''"

text \<open>
  The default check catches whatever the provider call rejected with and throws an
  \<^verbatim>\<open>Error\<close> of its own in its place.
\<close>

definition defaultValidateCode :: "'u Twilio \<Rightarrow> string \<Rightarrow> 'u ValidateCodeFunction" where
  "defaultValidateCode client service code phone =
     (case verificationChecks_create client service phone code of
        Inl error \<Rightarrow> Inl (Error invalid_code_message None)
      | Inr check \<Rightarrow> Inr check)"

definition defaultFormatPhoneNumber ::
  "(string \<Rightarrow> phone_result) \<Rightarrow> 'u FormatPhoneNumberFunction" where
  "defaultFormatPhoneNumber phone num =
     (let result = phone num
      in if \<not> isValid result then Inl (Error ''Invalid phone number.'' None)
         else Inr (phoneNumber result))"

text \<open>
  The constructor: \<^verbatim>\<open>twilio\<close> builds the client from the account's credentials and
  \<^verbatim>\<open>phone\<close> is the imported phone package.
\<close>

definition new_TwilioStrategy ::
  "(string \<Rightarrow> string \<Rightarrow> 'u Twilio) \<Rightarrow> (string \<Rightarrow> phone_result) \<Rightarrow>
   'u TwilioStrategyOptions \<Rightarrow> 'u VerifyCallback \<Rightarrow> 'u TwilioStrategy" where
  "new_TwilioStrategy twilio phone opts verify_callback =
     (let client = twilio (accountSID opts) (authToken opts)
      in \<lparr> sessionPhoneKey = ''twilio:phone'',
           sendCode = (case sendCode_option opts of
               Some f \<Rightarrow> f | None \<Rightarrow> defaultSendCode client (serviceSID opts)),
           validateCode = (case validateCode_option opts of
               Some f \<Rightarrow> f | None \<Rightarrow> defaultValidateCode client (serviceSID opts)),
           formatPhoneNumber = (case formatPhoneNumber_option opts of
               Some f \<Rightarrow> f | None \<Rightarrow> defaultFormatPhoneNumber phone),
           verify = verify_callback \<rparr>)"

section \<open>The inherited failure and success transitions\<close>

text \<open>
  Modelled from the spec: \<^verbatim>\<open>Strategy.failure\<close>, the method of the base class that
  \<^verbatim>\<open>index.ts\<close> calls as \<^verbatim>\<open>this.failure(message, request, sessionStorage, options, cause)\<close>
  and that is not part of the sources. Section 4.4, step 7: write the failure message into
  the flashed error session key, persist the session, then either signal a redirect to a
  configured \<^verbatim>\<open>failureRedirect\<close> or, if none is configured, propagate the failure to the
  caller as a typed error without emitting a redirect. The method is handed the request,
  not the session handle, so it works on the session the request's cookie holds. It never
  returns: its value here is what it throws.
\<close>

definition failure :: "string \<Rightarrow> 'u request \<Rightarrow> options \<Rightarrow> 'u thrown option \<Rightarrow> 'u thrown" where
  "failure msg request options cause =
     (let session = session_flash (sessionErrorKey options) (Text msg) (getSession request);
          header = commitSession session
      in case failureRedirect options of
           Some target \<Rightarrow> redirect target header
         | None \<Rightarrow> AuthorizationError msg cause)"

text \<open>
  Modelled from the spec: \<^verbatim>\<open>Strategy.success\<close>, the method of the base class that
  \<^verbatim>\<open>index.ts\<close> calls as \<^verbatim>\<open>this.success(user, request, sessionStorage, options)\<close> and
  that is not part of the sources. Section 4.4, step 1: return the stored principal.
\<close>

definition success :: "'u sval \<Rightarrow> 'u request \<Rightarrow> options \<Rightarrow> 'u thrown + 'u sval" where
  "success user request options = Inr user"

section \<open>The transition\<close>

datatype provider_call = SendCode string | ValidateCode string string

datatype 'u outcome = Returned "'u sval" | Thrown "'u thrown"

text \<open>
  What one call of \<^verbatim>\<open>authenticate\<close> leaves behind: how the promise settled, and the calls
  made on the provider functions (\<^verbatim>\<open>this.sendCode\<close>, \<^verbatim>\<open>this.validateCode\<close>), in order.
\<close>

record 'u transition =
  outcome :: "'u outcome"
  calls :: "provider_call list"

definition missing_successRedirect_message :: string where
  "missing_successRedirect_message =
     ''Missing required '' @ [CHR 0x60] @ ''successRedirect'' @ [CHR 0x60] @ '' property.''"

text \<open>
  \<^verbatim>\<open>form.phone && this.formatPhoneNumber(String(form.phone))\<close>: a falsy field is the
  result as it stands, and the formatter is not called on it.
\<close>

fun format_phone ::
  "'u FormatPhoneNumberFunction \<Rightarrow> form_value option \<Rightarrow> 'u thrown + string option" where
  "format_phone format None = Inr None"
| "format_phone format (Some v) =
     (if truthy_value v
      then (case format (String v) of Inl e \<Rightarrow> Inl e | Inr p \<Rightarrow> Inr (Some p))
      else Inr (Some (String v)))"

text \<open>
  \<^verbatim>\<open>form.code && String(form.code)\<close>: a falsy field is the empty string, which
  \<^verbatim>\<open>String\<close> leaves as it is.
\<close>

definition read_code :: "form_value option \<Rightarrow> string option" where
  "read_code field = map_option String field"

text \<open>
  The body of the \<^verbatim>\<open>try\<close> block (lines 113 to 169). Every way out of it is a throw: the
  guard on \<^verbatim>\<open>successRedirect\<close>, a rejected collaborator, an awaited \<^verbatim>\<open>this.failure\<close>,
  or one of the two redirects. The result is what was thrown, with the provider calls made
  up to then.
\<close>

definition try_block ::
  "'u TwilioStrategy \<Rightarrow> 'u request \<Rightarrow> 'u session \<Rightarrow> options \<Rightarrow> 'u thrown \<times> provider_call list" where
  "try_block this request session options =
     (case successRedirect options of
        None \<Rightarrow> (Error missing_successRedirect_message None, [])
      | Some target \<Rightarrow>
          if target = [] then (Error missing_successRedirect_message None, [])
          else
            (case formData request of
               Inl e \<Rightarrow> (e, [])
             | Inr entries \<Rightarrow>
                 (let form = fromEntries entries
                  in case format_phone (formatPhoneNumber this) (form ''phone'') of
                       Inl e \<Rightarrow> (e, [])
                     | Inr phone_field \<Rightarrow>
                         (let code_field = read_code (form ''code'')
                          in if falsy phone_field
                             then (failure ''Missing phone number.'' request options None, [])
                             else
                               (let phone = string_of phone_field
                                in if \<not> falsy code_field
                                   then
                                     (let code = string_of code_field
                                      in case validateCode this code phone of
                                           Inl e \<Rightarrow> (e, [ValidateCode code phone])
                                         | Inr status \<Rightarrow>
                                             if status \<noteq> ''approved''
                                             then (failure invalid_code_message request options None,
                                                   [ValidateCode code phone])
                                             else
                                               (case verify this phone entries request of
                                                  Inl e \<Rightarrow> (e, [ValidateCode code phone])
                                                | Inr user \<Rightarrow>
                                                    (redirect target
                                                       (commitSession
                                                         (session_unset (sessionErrorKey options)
                                                           (session_unset (sessionPhoneKey this)
                                                             (session_set (sessionKey options)
                                                               (Principal user) session)))),
                                                     [ValidateCode code phone])))
                                   else
                                     (case sendCode this phone of
                                        Inl e \<Rightarrow> (e, [SendCode phone])
                                      | Inr sent \<Rightarrow>
                                          (redirect target
                                             (commitSession
                                               (session_unset (sessionErrorKey options)
                                                 (session_flash (sessionPhoneKey this)
                                                   (Text phone) session))),
                                           [SendCode phone])))))))"

text \<open>
  The \<^verbatim>\<open>catch\<close> block (lines 170 to 192): a response of status 302 is thrown again as
  it is; an \<^verbatim>\<open>Error\<close> goes to the failure transition with its own message and itself as
  the cause; anything else goes there as an unknown error.
\<close>

definition catch_block :: "'u thrown \<Rightarrow> 'u request \<Rightarrow> options \<Rightarrow> 'u thrown" where
  "catch_block error request options =
     (if is_redirect_302 error then error
      else if instanceof_Error error
      then failure (message error) request options (Some error)
      else failure ''Unknown Error.'' request options
             (Some (Error (JSON_stringify error) None)))"

definition unauthenticated ::
  "'u TwilioStrategy \<Rightarrow> 'u request \<Rightarrow> 'u session \<Rightarrow> options \<Rightarrow> 'u transition" where
  "unauthenticated this request session options =
     (case try_block this request session options of
        (error, made) \<Rightarrow>
          \<lparr> outcome = Thrown (catch_block error request options), calls = made \<rparr>)"

text \<open>
  \<^verbatim>\<open>authenticate\<close> (lines 100 to 200). The session is read from the request's cookie and
  the user is what it holds under the session key; a missing or falsy one takes the
  \<^verbatim>\<open>try\<close>/\<^verbatim>\<open>catch\<close>, which always throws, so that the second test of \<^verbatim>\<open>!user\<close>
  (line 195) is never reached with a falsy user.
\<close>

definition authenticate :: "'u TwilioStrategy \<Rightarrow> 'u request \<Rightarrow> options \<Rightarrow> 'u transition" where
  "authenticate this request options =
     (case session_get (sessionKey options) (getSession request) of
        (None, session) \<Rightarrow> unauthenticated this request session options
      | (Some user, session) \<Rightarrow>
          if \<not> truthy_sval user then unauthenticated this request session options
          else
            (case success user request options of
               Inl e \<Rightarrow> \<lparr> outcome = Thrown e, calls = [] \<rparr>
             | Inr u \<Rightarrow> \<lparr> outcome = Returned u, calls = [] \<rparr>))"

section \<open>Reading a request\<close>

text \<open>
  The session holds no principal: \<^verbatim>\<open>session.get(options.sessionKey) ?? null\<close> is falsy
  (line 109 and the test of line 111).
\<close>

definition no_principal :: "options \<Rightarrow> 'u request \<Rightarrow> bool" where
  "no_principal options request =
     (case fst (session_get (sessionKey options) (getSession request)) of
        None \<Rightarrow> True
      | Some user \<Rightarrow> \<not> truthy_sval user)"

text \<open>
  The session handle after the read of line 109.
\<close>

definition session_read :: "options \<Rightarrow> 'u request \<Rightarrow> 'u session" where
  "session_read options request = snd (session_get (sessionKey options) (getSession request))"

text \<open>
  The value a slot holds, stored or flashed.
\<close>

fun slot_value :: "'u slot \<Rightarrow> 'u sval" where
  "slot_value (Stored v) = v"
| "slot_value (Flashed v) = v"

text \<open>
  The request carries a phone: its form parses to \<open>entries\<close>, the \<^verbatim>\<open>phone\<close> field
  formats to the non-empty \<open>phone\<close> (lines 117 to 119 and the test of line 122), and
  \<open>code_field\<close> is what line 120 reads as the code.
\<close>

definition submitted ::
  "'u TwilioStrategy \<Rightarrow> 'u request \<Rightarrow> (string \<times> form_value) list \<Rightarrow> string \<Rightarrow> string option \<Rightarrow> bool" where
  "submitted this request entries phone code_field =
     (formData request = Inr entries \<and>
      format_phone (formatPhoneNumber this) (fromEntries entries ''phone'') = Inr (Some phone) \<and>
      phone \<noteq> [] \<and>
      read_code (fromEntries entries ''code'') = code_field)"

text \<open>
  \<^verbatim>\<open>FormData.delete(name)\<close>: the form without the entries of one name.
\<close>

definition FormData_delete :: "string \<Rightarrow> (string \<times> form_value) list \<Rightarrow> (string \<times> form_value) list" where
  "FormData_delete name entries = filter (\<lambda>entry. fst entry \<noteq> name) entries"

section \<open>A worked scenario\<close>

text \<open>
  The scenario of the spec's section 8, as concrete inputs: the raw phone
  \<^verbatim>\<open>555-123-4567\<close> normalizes to \<^verbatim>\<open>+15551234567\<close>, the provider sends a code and
  approves \<^verbatim>\<open>123456\<close>, and the callback resolves the phone to the account of id 7. The
  strategy is built by the constructor with no override, so the defaults run.
\<close>

type_synonym account = "nat \<times> string"

definition scenario_phone :: "string \<Rightarrow> phone_result" where
  "scenario_phone raw =
     (if raw = ''555-123-4567'' then \<lparr> isValid = True, phoneNumber = ''+15551234567'' \<rparr>
      else \<lparr> isValid = False, phoneNumber = [] \<rparr>)"

definition scenario_twilio :: "string \<Rightarrow> string \<Rightarrow> account Twilio" where
  "scenario_twilio sid token =
     \<lparr> verifications_create = (\<lambda>service to channel. Inr ()),
       verificationChecks_create = (\<lambda>service to code.
          Inr (if code = ''123456'' then ''approved'' else ''pending'')) \<rparr>"

text \<open>
  A provider that cannot be reached: both calls reject.
\<close>

definition unreachable_twilio :: "string \<Rightarrow> string \<Rightarrow> account Twilio" where
  "unreachable_twilio sid token =
     \<lparr> verifications_create = (\<lambda>service to channel. Inl (Error ''connect ECONNREFUSED'' None)),
       verificationChecks_create = (\<lambda>service to code. Inl (Error ''connect ECONNREFUSED'' None)) \<rparr>"

definition scenario_verify :: "account VerifyCallback" where
  "scenario_verify phone entries request = Inr (7, phone)"

definition failing_verify :: "account VerifyCallback" where
  "failing_verify phone entries request = Inl (Error ''user store is down'' None)"

definition scenario_config :: "account TwilioStrategyOptions" where
  "scenario_config =
     \<lparr> accountSID = ''AC1'', authToken = ''secret'', serviceSID = ''VA1'',
       sendCode_option = None, validateCode_option = None, formatPhoneNumber_option = None \<rparr>"

definition scenario_strategy :: "account TwilioStrategy" where
  "scenario_strategy =
     new_TwilioStrategy scenario_twilio scenario_phone scenario_config scenario_verify"

definition unreachable_strategy :: "account TwilioStrategy" where
  "unreachable_strategy =
     new_TwilioStrategy unreachable_twilio scenario_phone scenario_config scenario_verify"

definition failing_verify_strategy :: "account TwilioStrategy" where
  "failing_verify_strategy =
     new_TwilioStrategy scenario_twilio scenario_phone scenario_config failing_verify"

definition login_options :: options where
  "login_options =
     \<lparr> sessionKey = ''user'', sessionErrorKey = ''auth:error'',
       successRedirect = Some ''/account'', failureRedirect = Some ''/login'' \<rparr>"

text \<open>
  No \<^verbatim>\<open>failureRedirect\<close>: failures go to the caller.
\<close>

definition strict_options :: options where
  "strict_options =
     \<lparr> sessionKey = ''user'', sessionErrorKey = ''auth:error'',
       successRedirect = Some ''/account'', failureRedirect = None \<rparr>"

text \<open>
  No \<^verbatim>\<open>successRedirect\<close>.
\<close>

definition unconfigured_options :: options where
  "unconfigured_options =
     \<lparr> sessionKey = ''user'', sessionErrorKey = ''auth:error'',
       successRedirect = None, failureRedirect = Some ''/login'' \<rparr>"

definition pending_session :: "account session" where
  "pending_session = [(''twilio:phone'', Flashed (Text ''+15551234567''))]"

definition phone_request :: "account request" where
  "phone_request =
     \<lparr> Cookie = [], formData = Inr [(''phone'', FString ''555-123-4567'')] \<rparr>"

definition code_request :: "account request" where
  "code_request =
     \<lparr> Cookie = pending_session,
       formData = Inr [(''phone'', FString ''555-123-4567''), (''code'', FString ''123456'')] \<rparr>"

definition wrong_code_request :: "account request" where
  "wrong_code_request =
     \<lparr> Cookie = pending_session,
       formData = Inr [(''phone'', FString ''555-123-4567''), (''code'', FString ''000000'')] \<rparr>"

definition empty_code_request :: "account request" where
  "empty_code_request =
     \<lparr> Cookie = pending_session,
       formData = Inr [(''phone'', FString ''555-123-4567''), (''code'', FString [])] \<rparr>"

definition no_phone_request :: "account request" where
  "no_phone_request =
     \<lparr> Cookie = pending_session, formData = Inr [(''code'', FString ''123456'')] \<rparr>"

definition signed_in_request :: "account request" where
  "signed_in_request =
     \<lparr> Cookie = [(''user'', Stored (Principal (7, ''+15551234567'')))],
       formData = Inr [(''phone'', FString ''555-123-4567'')] \<rparr>"

section \<open>Paths through the transition\<close>

lemmas scenario_defs =
  scenario_phone_def scenario_twilio_def unreachable_twilio_def scenario_verify_def
  failing_verify_def scenario_config_def scenario_strategy_def unreachable_strategy_def
  failing_verify_strategy_def login_options_def strict_options_def unconfigured_options_def
  pending_session_def phone_request_def code_request_def wrong_code_request_def
  empty_code_request_def no_phone_request_def signed_in_request_def

lemmas strategy_defs =
  new_TwilioStrategy_def defaultSendCode_def defaultValidateCode_def
  defaultFormatPhoneNumber_def

lemmas session_defs =
  session_get_def session_set_def session_flash_def session_unset_def getSession_def
  commitSession_def

lemma authenticate_no_principal:
  "no_principal options request \<Longrightarrow>
   authenticate this request options =
     unauthenticated this request (session_read options request) options"
  by (auto simp: no_principal_def authenticate_def session_read_def split: prod.splits option.splits)

lemma try_block_with_code:
  assumes "successRedirect options = Some target" and "target \<noteq> []"
    and "submitted this request entries phone (Some code)" and "code \<noteq> []"
  shows "try_block this request session options =
     (case validateCode this code phone of
        Inl e \<Rightarrow> (e, [ValidateCode code phone])
      | Inr status \<Rightarrow>
          if status \<noteq> ''approved''
          then (failure invalid_code_message request options None, [ValidateCode code phone])
          else
            (case verify this phone entries request of
               Inl e \<Rightarrow> (e, [ValidateCode code phone])
             | Inr user \<Rightarrow>
                 (redirect target
                    (commitSession
                      (session_unset (sessionErrorKey options)
                        (session_unset (sessionPhoneKey this)
                          (session_set (sessionKey options) (Principal user) session)))),
                  [ValidateCode code phone])))"
  using assms by (simp add: try_block_def submitted_def falsy_def)

lemma try_block_phone_only:
  assumes "successRedirect options = Some target" and "target \<noteq> []"
    and "submitted this request entries phone code_field" and "falsy code_field"
  shows "try_block this request session options =
     (case sendCode this phone of
        Inl e \<Rightarrow> (e, [SendCode phone])
      | Inr sent \<Rightarrow>
          (redirect target
             (commitSession
               (session_unset (sessionErrorKey options)
                 (session_flash (sessionPhoneKey this) (Text phone) session))),
           [SendCode phone]))"
  using assms by (auto simp add: try_block_def submitted_def falsy_def)

lemma catch_block_redirect:
  "catch_block (redirect target header) request options = redirect target header"
  by (simp add: catch_block_def redirect_def)

lemma failure_redirect:
  "failureRedirect options = Some target \<Longrightarrow>
   failure msg request options cause =
     redirect target (session_flash (sessionErrorKey options) (Text msg) (Cookie request))"
  by (simp add: failure_def getSession_def commitSession_def)

lemma failure_typed:
  "failureRedirect options = None \<Longrightarrow>
   failure msg request options cause = AuthorizationError msg cause"
  by (simp add: failure_def)

lemma map_of_session_unset:
  "map_of (session_unset k s) k' = (if k' = k then None else map_of s k')"
  by (simp add: session_unset_def delete_conv')

lemma map_of_session_set:
  "map_of (session_set k v s) k' = (if k' = k then Some (Stored v) else map_of s k')"
  by (simp add: session_set_def update_conv')

lemma map_of_session_flash:
  "map_of (session_flash k v s) k' = (if k' = k then Some (Flashed v) else map_of s k')"
  by (simp add: session_flash_def update_conv')

section \<open>An approved code signs the user in\<close>

text \<open>
  Claim C1. A request carries a phone and a code, the session holds no principal, the
  code check returns \<^verbatim>\<open>approved\<close> and the user-resolution callback returns a user. Then
  the transition makes the one call of \<^verbatim>\<open>validateCode\<close> and throws the redirect to
  \<^verbatim>\<open>successRedirect\<close> whose cookie is the committed session: the session read from the
  request with the user set under the session key, then the pending-phone key unset, then
  the error key unset. In that cookie the pending-phone key and the error key are absent,
  and the session key holds the callback's user whenever it is a key of its own.
\<close>

theorem approved_code_signs_in:
  fixes this :: "'u TwilioStrategy"
  defines "cookie \<equiv> \<lambda>options request user.
     commitSession
       (session_unset (sessionErrorKey options)
         (session_unset (sessionPhoneKey this)
           (session_set (sessionKey options) (Principal user) (session_read options request))))"
  assumes "no_principal options request"
    and "successRedirect options = Some target" and "target \<noteq> []"
    and "submitted this request entries phone (Some code)" and "code \<noteq> []"
    and "validateCode this code phone = Inr ''approved''"
    and "verify this phone entries request = Inr user"
  shows "authenticate this request options =
           \<lparr> outcome = Thrown (redirect target (cookie options request user)),
             calls = [ValidateCode code phone] \<rparr> \<and>
         map_of (cookie options request user) (sessionPhoneKey this) = None \<and>
         map_of (cookie options request user) (sessionErrorKey options) = None \<and>
         (sessionKey options \<noteq> sessionPhoneKey this \<and>
          sessionKey options \<noteq> sessionErrorKey options \<longrightarrow>
            map_of (cookie options request user) (sessionKey options) =
              Some (Stored (Principal user)))"
proof -
  have "try_block this request (session_read options request) options =
          (redirect target (cookie options request user), [ValidateCode code phone])"
    using assms(3-8) by (simp add: try_block_with_code cookie_def)
  then have "authenticate this request options =
           \<lparr> outcome = Thrown (redirect target (cookie options request user)),
             calls = [ValidateCode code phone] \<rparr>"
    using assms(2) by (simp add: authenticate_no_principal unauthenticated_def catch_block_redirect)
  moreover have "map_of (cookie options request user) (sessionPhoneKey this) = None"
    and "map_of (cookie options request user) (sessionErrorKey options) = None"
    by (simp_all add: cookie_def commitSession_def map_of_session_unset)
  moreover have "map_of (cookie options request user) (sessionKey options) =
      Some (Stored (Principal user))"
    if "sessionKey options \<noteq> sessionPhoneKey this"
      and "sessionKey options \<noteq> sessionErrorKey options"
    using that by (simp add: cookie_def commitSession_def map_of_session_unset map_of_session_set)
  ultimately show ?thesis by blast
qed

text \<open>
  The second request of the scenario: the account of id 7 is stored under \<^verbatim>\<open>user\<close>, the
  pending phone is gone, and the redirect goes to \<^verbatim>\<open>/account\<close>.
\<close>

theorem approved_code_signs_in_witness:
  "authenticate scenario_strategy code_request login_options =
     \<lparr> outcome = Thrown (redirect ''/account''
                   [(''user'', Stored (Principal (7, ''+15551234567'')))]),
       calls = [ValidateCode ''123456'' ''+15551234567''] \<rparr>"
proof -
  have none: "no_principal login_options code_request"
    by (simp add: no_principal_def scenario_defs session_defs)
  have target: "successRedirect login_options = Some ''/account''"
    by (simp add: login_options_def)
  have form: "submitted scenario_strategy code_request
      [(''phone'', FString ''555-123-4567''), (''code'', FString ''123456'')]
      ''+15551234567'' (Some ''123456'')"
    by (simp add: submitted_def scenario_defs strategy_defs fromEntries_def read_code_def Let_def)
  have approved: "validateCode scenario_strategy ''123456'' ''+15551234567'' = Inr ''approved''"
    by (simp add: scenario_defs strategy_defs Let_def)
  have resolved: "verify scenario_strategy ''+15551234567''
      [(''phone'', FString ''555-123-4567''), (''code'', FString ''123456'')] code_request
      = Inr (7, ''+15551234567'')"
    by (simp add: scenario_defs strategy_defs Let_def)
  have "session_read login_options code_request = pending_session"
    by (simp add: session_read_def scenario_defs session_defs)
  with approved_code_signs_in [OF none target _ form _ approved resolved]
  show ?thesis
    by (simp add: scenario_defs strategy_defs session_defs redirect_def Let_def)
qed

section \<open>A phone alone requests a code\<close>

text \<open>
  Claim C3. A request carries a phone and no code, the session holds no principal and
  \<^verbatim>\<open>sendCode\<close> succeeds. Then the transition makes the one call of \<^verbatim>\<open>sendCode\<close> on the
  normalized phone and throws the redirect to \<^verbatim>\<open>successRedirect\<close> whose cookie is the
  committed session: the session read from the request with the normalized phone flashed
  under the pending-phone key, then the error key unset. In that cookie the error key is
  absent, and the pending-phone key holds the flashed phone whenever the error key is a
  different key.
\<close>

theorem phone_only_requests_code:
  fixes this :: "'u TwilioStrategy"
  defines "cookie \<equiv> \<lambda>options request phone.
     commitSession
       (session_unset (sessionErrorKey options)
         (session_flash (sessionPhoneKey this) (Text phone) (session_read options request)))"
  assumes "no_principal options request"
    and "successRedirect options = Some target" and "target \<noteq> []"
    and "submitted this request entries phone code_field" and "falsy code_field"
    and "sendCode this phone = Inr sent"
  shows "authenticate this request options =
           \<lparr> outcome = Thrown (redirect target (cookie options request phone)),
             calls = [SendCode phone] \<rparr> \<and>
         map_of (cookie options request phone) (sessionErrorKey options) = None \<and>
         (sessionPhoneKey this \<noteq> sessionErrorKey options \<longrightarrow>
            map_of (cookie options request phone) (sessionPhoneKey this) =
              Some (Flashed (Text phone)))"
proof (intro conjI impI)
  have "try_block this request (session_read options request) options =
          (redirect target (cookie options request phone), [SendCode phone])"
    using assms(3-7) by (simp add: try_block_phone_only cookie_def)
  with assms(2) show "authenticate this request options =
           \<lparr> outcome = Thrown (redirect target (cookie options request phone)),
             calls = [SendCode phone] \<rparr>"
    by (simp add: authenticate_no_principal unauthenticated_def catch_block_redirect)
next
  show "map_of (cookie options request phone) (sessionErrorKey options) = None"
    by (simp add: cookie_def commitSession_def map_of_session_unset)
next
  assume "sessionPhoneKey this \<noteq> sessionErrorKey options"
  then show "map_of (cookie options request phone) (sessionPhoneKey this) =
      Some (Flashed (Text phone))"
    by (simp add: cookie_def commitSession_def map_of_session_unset map_of_session_flash)
qed

text \<open>
  The first request of the scenario: \<^verbatim>\<open>+15551234567\<close> is flashed under
  \<^verbatim>\<open>twilio:phone\<close>.
\<close>

theorem phone_only_requests_code_witness:
  "authenticate scenario_strategy phone_request login_options =
     \<lparr> outcome = Thrown (redirect ''/account''
                   [(''twilio:phone'', Flashed (Text ''+15551234567''))]),
       calls = [SendCode ''+15551234567''] \<rparr>"
proof -
  have none: "no_principal login_options phone_request"
    by (simp add: no_principal_def scenario_defs session_defs)
  have target: "successRedirect login_options = Some ''/account''"
    by (simp add: login_options_def)
  have form: "submitted scenario_strategy phone_request
      [(''phone'', FString ''555-123-4567'')] ''+15551234567'' None"
    by (simp add: submitted_def scenario_defs strategy_defs fromEntries_def read_code_def Let_def)
  have absent: "falsy None"
    by (simp add: falsy_def)
  have sent: "sendCode scenario_strategy ''+15551234567'' = Inr ()"
    by (simp add: scenario_defs strategy_defs Let_def)
  have "session_read login_options phone_request = []"
    by (simp add: session_read_def scenario_defs session_defs)
  with phone_only_requests_code [OF none target _ form absent sent]
  show ?thesis
    by (simp add: scenario_defs strategy_defs session_defs redirect_def Let_def)
qed

section \<open>A stored principal is returned\<close>

text \<open>
  Claim C4. The session of the request holds a principal under the session key. Then,
  whatever the options are (with or without \<^verbatim>\<open>successRedirect\<close>) and whatever the form
  is, the transition calls neither \<^verbatim>\<open>sendCode\<close> nor \<^verbatim>\<open>validateCode\<close> and returns
  that principal.
\<close>

theorem stored_principal_is_returned:
  assumes "map_of (Cookie request) (sessionKey options) = Some slot"
    and "slot_value slot = Principal user"
  shows "authenticate this request options =
           \<lparr> outcome = Returned (Principal user), calls = [] \<rparr>"
proof (cases slot)
  case (Stored v)
  with assms show ?thesis
    by (simp add: authenticate_def session_get_def getSession_def success_def)
next
  case (Flashed v)
  with assms show ?thesis
    by (simp add: authenticate_def session_get_def getSession_def success_def)
qed

text \<open>
  A signed-in request is answered with its account although no \<^verbatim>\<open>successRedirect\<close> is
  configured.
\<close>

theorem stored_principal_is_returned_witness:
  "authenticate unreachable_strategy signed_in_request unconfigured_options =
     \<lparr> outcome = Returned (Principal (7, ''+15551234567'')), calls = [] \<rparr>"
proof -
  have held: "map_of (Cookie signed_in_request) (sessionKey unconfigured_options) =
      Some (Stored (Principal (7, ''+15551234567'')))"
    by (simp add: scenario_defs)
  show ?thesis
    by (rule stored_principal_is_returned [OF held]) simp
qed

section \<open>Failures inside the try block\<close>

lemma catch_block_failure:
  "catch_block (failure msg request options cause) request options =
     (case failureRedirect options of
        Some target \<Rightarrow>
          redirect target (session_flash (sessionErrorKey options) (Text msg) (Cookie request))
      | None \<Rightarrow> AuthorizationError msg (Some (AuthorizationError msg cause)))"
proof (cases "failureRedirect options")
  case None
  then show ?thesis
    by (simp add: failure_typed catch_block_def)
next
  case (Some target)
  then show ?thesis
    by (simp add: failure_redirect catch_block_redirect)
qed

lemma catch_block_Error:
  "catch_block (Error msg cause) request options =
     failure msg request options (Some (Error msg cause))"
  by (simp add: catch_block_def)

lemma flashed_error_frame:
  "k \<noteq> sessionErrorKey options \<Longrightarrow>
   map_of (session_flash (sessionErrorKey options) v s) k = map_of s k"
  by (simp add: map_of_session_flash)

text \<open>
  Claim C2. A request carries a phone and a code, the session holds no principal and the
  code check returns a status other than \<^verbatim>\<open>approved\<close>. Then the transition makes the
  one call of \<^verbatim>\<open>validateCode\<close> and takes the failure transition with the invalid-code
  message: with a \<^verbatim>\<open>failureRedirect\<close> it throws the redirect to it whose cookie is the
  request's session with that message flashed under the error key, and without one it
  throws the typed error of that message. The cookie differs from the request's session at
  the error key only: the pending phone, under a key of its own, is as it was.
\<close>

theorem rejected_code_keeps_pending_phone:
  fixes this :: "'u TwilioStrategy" and request :: "'u request"
  defines "cookie \<equiv> \<lambda>options request.
     session_flash (sessionErrorKey options) (Text invalid_code_message) (Cookie request)"
  assumes "no_principal options request"
    and "successRedirect options = Some target" and "target \<noteq> []"
    and "submitted this request entries phone (Some code)" and "code \<noteq> []"
    and "validateCode this code phone = Inr status" and "status \<noteq> ''approved''"
  shows "calls (authenticate this request options) = [ValidateCode code phone] \<and>
         (\<forall>failed. failureRedirect options = Some failed \<longrightarrow>
            outcome (authenticate this request options) =
              Thrown (redirect failed (cookie options request))) \<and>
         (failureRedirect options = None \<longrightarrow>
            outcome (authenticate this request options) =
              Thrown (AuthorizationError invalid_code_message
                        (Some (AuthorizationError invalid_code_message None)))) \<and>
         map_of (cookie options request) (sessionErrorKey options) =
           Some (Flashed (Text invalid_code_message)) \<and>
         (\<forall>k. k \<noteq> sessionErrorKey options \<longrightarrow>
            map_of (cookie options request) k = map_of (Cookie request) k) \<and>
         (sessionPhoneKey this \<noteq> sessionErrorKey options \<longrightarrow>
            map_of (cookie options request) (sessionPhoneKey this) =
              map_of (Cookie request) (sessionPhoneKey this))"
proof -
  have "try_block this request (session_read options request) options =
          (failure invalid_code_message request options None, [ValidateCode code phone])"
    using assms(3-8) by (simp add: try_block_with_code)
  with assms(2) have run: "authenticate this request options =
      \<lparr> outcome = Thrown (catch_block (failure invalid_code_message request options None)
                            request options),
        calls = [ValidateCode code phone] \<rparr>"
    by (simp add: authenticate_no_principal unauthenticated_def)
  have "calls (authenticate this request options) = [ValidateCode code phone]"
    by (simp add: run)
  moreover have "outcome (authenticate this request options) =
      Thrown (redirect failed (cookie options request))"
    if "failureRedirect options = Some failed" for failed
    using that by (simp add: run catch_block_failure cookie_def)
  moreover have "outcome (authenticate this request options) =
      Thrown (AuthorizationError invalid_code_message
                (Some (AuthorizationError invalid_code_message None)))"
    if "failureRedirect options = None"
    using that by (simp add: run catch_block_failure)
  moreover have "map_of (cookie options request) (sessionErrorKey options) =
      Some (Flashed (Text invalid_code_message))"
    by (simp add: cookie_def map_of_session_flash)
  moreover have "map_of (cookie options request) k = map_of (Cookie request) k"
    if "k \<noteq> sessionErrorKey options" for k
    using that by (simp add: cookie_def flashed_error_frame)
  ultimately show ?thesis by blast
qed

text \<open>
  A wrong code in the scenario: the redirect goes to \<^verbatim>\<open>/login\<close>, and the cookie still
  holds the pending phone beside the flashed message.
\<close>

theorem rejected_code_keeps_pending_phone_witness:
  "calls (authenticate scenario_strategy wrong_code_request login_options) =
     [ValidateCode ''000000'' ''+15551234567''] \<and>
   outcome (authenticate scenario_strategy wrong_code_request login_options) =
     Thrown (redirect ''/login''
       [(''twilio:phone'', Flashed (Text ''+15551234567'')),
        (''auth:error'', Flashed (Text ''Sorry, that code is invalid. Please try again.''))])"
proof -
  have none: "no_principal login_options wrong_code_request"
    by (simp add: no_principal_def scenario_defs session_defs)
  have target: "successRedirect login_options = Some ''/account''"
    by (simp add: login_options_def)
  have form: "submitted scenario_strategy wrong_code_request
      [(''phone'', FString ''555-123-4567''), (''code'', FString ''000000'')]
      ''+15551234567'' (Some ''000000'')"
    by (simp add: submitted_def scenario_defs strategy_defs fromEntries_def read_code_def Let_def)
  have pending: "validateCode scenario_strategy ''000000'' ''+15551234567'' = Inr ''pending''"
    by (simp add: scenario_defs strategy_defs Let_def)
  have failed: "failureRedirect login_options = Some ''/login''"
    by (simp add: login_options_def)
  from rejected_code_keeps_pending_phone [OF none target _ form _ pending] failed
  show ?thesis
    by (simp add: scenario_defs session_defs invalid_code_message_def)
qed

section \<open>A missing phone\<close>

text \<open>
  Claim C7. The session holds no principal, \<^verbatim>\<open>successRedirect\<close> is configured (the
  guard of line 113 comes first) and the submitted form has no \<^verbatim>\<open>phone\<close> field, or an
  empty one. Then, whatever else the form holds, a \<^verbatim>\<open>code\<close> field included, the
  transition calls no provider function and takes the failure transition with the
  missing-phone message: the redirect to \<^verbatim>\<open>failureRedirect\<close> with that message flashed
  under the error key, or without a \<^verbatim>\<open>failureRedirect\<close> the typed error of that message.
\<close>

theorem missing_phone_fails:
  fixes this :: "'u TwilioStrategy" and request :: "'u request"
  assumes "no_principal options request"
    and "successRedirect options = Some target" and "target \<noteq> []"
    and "formData request = Inr entries"
    and "fromEntries entries ''phone'' = None \<or> fromEntries entries ''phone'' = Some (FString [])"
  shows "calls (authenticate this request options) = [] \<and>
         (\<forall>failed. failureRedirect options = Some failed \<longrightarrow>
            outcome (authenticate this request options) =
              Thrown (redirect failed
                (session_flash (sessionErrorKey options) (Text ''Missing phone number.'')
                   (Cookie request)))) \<and>
         (failureRedirect options = None \<longrightarrow>
            outcome (authenticate this request options) =
              Thrown (AuthorizationError ''Missing phone number.''
                        (Some (AuthorizationError ''Missing phone number.'' None))))"
proof -
  from assms(5) have "\<exists>field. format_phone (formatPhoneNumber this) (fromEntries entries ''phone'')
      = Inr field \<and> falsy field"
    by (auto simp: falsy_def)
  then obtain field
    where "format_phone (formatPhoneNumber this) (fromEntries entries ''phone'') = Inr field"
      and "falsy field"
    by blast
  with assms(2,3,4) have "try_block this request (session_read options request) options =
      (failure ''Missing phone number.'' request options None, [])"
    by (simp add: try_block_def)
  with assms(1) have run: "authenticate this request options =
      \<lparr> outcome = Thrown (catch_block (failure ''Missing phone number.'' request options None)
                            request options),
        calls = [] \<rparr>"
    by (simp add: authenticate_no_principal unauthenticated_def)
  show ?thesis
    by (simp add: run catch_block_failure)
qed

text \<open>
  A code without a phone in the scenario, with and without a \<^verbatim>\<open>failureRedirect\<close>.
\<close>

theorem missing_phone_fails_witness:
  "calls (authenticate scenario_strategy no_phone_request login_options) = [] \<and>
   outcome (authenticate scenario_strategy no_phone_request login_options) =
     Thrown (redirect ''/login''
       [(''twilio:phone'', Flashed (Text ''+15551234567'')),
        (''auth:error'', Flashed (Text ''Missing phone number.''))]) \<and>
   outcome (authenticate scenario_strategy no_phone_request strict_options) =
     Thrown (AuthorizationError ''Missing phone number.''
               (Some (AuthorizationError ''Missing phone number.'' None)))"
proof -
  have none: "no_principal login_options no_phone_request"
    and none': "no_principal strict_options no_phone_request"
    by (simp_all add: no_principal_def scenario_defs session_defs)
  have target: "successRedirect login_options = Some ''/account''"
    and target': "successRedirect strict_options = Some ''/account''"
    by (simp_all add: scenario_defs)
  have form: "formData no_phone_request = Inr [(''code'', FString ''123456'')]"
    by (simp add: scenario_defs)
  have absent: "fromEntries [(''code'', FString ''123456'')] ''phone'' = None \<or>
      fromEntries [(''code'', FString ''123456'')] ''phone'' = Some (FString [])"
    by (simp add: fromEntries_def)
  have failed: "failureRedirect login_options = Some ''/login''"
    and failed': "failureRedirect strict_options = None"
    by (simp_all add: scenario_defs)
  from missing_phone_fails [OF none target _ form absent, of scenario_strategy]
    missing_phone_fails [OF none' target' _ form absent, of scenario_strategy]
    failed failed'
  show ?thesis
    by (simp add: scenario_defs session_defs)
qed

section \<open>A missing success redirect\<close>

text \<open>
  Claim C5, as amended. The session holds no principal and \<^verbatim>\<open>successRedirect\<close> is not
  configured. Then the transition fails with the missing-\<^verbatim>\<open>successRedirect\<close> message
  before any provider call, and the error takes the failure transition like any other
  error thrown in the \<^verbatim>\<open>try\<close> block: with a \<^verbatim>\<open>failureRedirect\<close> the message is flashed
  under the error key and the redirect to \<^verbatim>\<open>failureRedirect\<close> is thrown; only without
  one is a typed error propagated to the caller, with the original error as its cause.
\<close>

theorem missing_successRedirect_fails_first:
  fixes this :: "'u TwilioStrategy" and request :: "'u request"
  assumes "no_principal options request"
    and "falsy (successRedirect options)"
  shows "calls (authenticate this request options) = [] \<and>
         (\<forall>failed. failureRedirect options = Some failed \<longrightarrow>
            outcome (authenticate this request options) =
              Thrown (redirect failed
                (session_flash (sessionErrorKey options) (Text missing_successRedirect_message)
                   (Cookie request)))) \<and>
         (failureRedirect options = None \<longrightarrow>
            outcome (authenticate this request options) =
              Thrown (AuthorizationError missing_successRedirect_message
                        (Some (Error missing_successRedirect_message None))))"
proof -
  from assms(2) have "try_block this request (session_read options request) options =
      (Error missing_successRedirect_message None, [])"
    by (auto simp: try_block_def falsy_def)
  with assms(1) have run: "authenticate this request options =
      \<lparr> outcome = Thrown (failure missing_successRedirect_message request options
                            (Some (Error missing_successRedirect_message None))),
        calls = [] \<rparr>"
    by (simp add: authenticate_no_principal unauthenticated_def catch_block_Error)
  show ?thesis
    by (simp add: run failure_redirect failure_typed)
qed

theorem missing_successRedirect_fails_first_witness:
  "calls (authenticate unreachable_strategy phone_request unconfigured_options) = [] \<and>
   outcome (authenticate unreachable_strategy phone_request unconfigured_options) =
     Thrown (redirect ''/login''
       [(''auth:error'', Flashed (Text missing_successRedirect_message))])"
proof -
  have none: "no_principal unconfigured_options phone_request"
    by (simp add: no_principal_def scenario_defs session_defs)
  have missing: "falsy (successRedirect unconfigured_options)"
    by (simp add: falsy_def scenario_defs)
  have failed: "failureRedirect unconfigured_options = Some ''/login''"
    by (simp add: scenario_defs)
  from missing_successRedirect_fails_first [OF none missing, of unreachable_strategy] failed
  show ?thesis
    by (simp add: scenario_defs session_defs)
qed

text \<open>
  The claim as stated, that the missing-\<^verbatim>\<open>successRedirect\<close> failure is always propagated
  to the caller as an error and never flashed for the end user, fails where a
  \<^verbatim>\<open>failureRedirect\<close> is configured: the scenario's first request under such options is
  answered with the redirect to \<^verbatim>\<open>/login\<close>, the message flashed in its cookie, and not
  with an error.
\<close>

theorem missing_successRedirect_counterexample:
  "outcome (authenticate scenario_strategy phone_request unconfigured_options) =
     Thrown (Response 302 (Some ''/login'')
       (Some [(''auth:error'', Flashed (Text missing_successRedirect_message))])) \<and>
   \<not> instanceof_Error (Response 302 (Some ''/login'')
       (Some [(''auth:error'', Flashed (Text missing_successRedirect_message))])
         :: account thrown)"
  by (simp add: authenticate_def unauthenticated_def try_block_def catch_block_def failure_def
      redirect_def scenario_defs session_defs)

section \<open>A failing provider and a failing callback\<close>

text \<open>
  Claim C6, as amended. A request carries a phone and a code, the session holds no
  principal and the code check fails with an error. Then the transition makes the one call
  of \<^verbatim>\<open>validateCode\<close> and takes the failure transition with the message of that error:
  the redirect to \<^verbatim>\<open>failureRedirect\<close> whose cookie is the request's session with the
  message flashed under the error key, the pending phone untouched, or without a
  \<^verbatim>\<open>failureRedirect\<close> the typed error of that message. The message is the one the
  provider function threw; the default \<^verbatim>\<open>validateCode\<close> throws the invalid-code message
  for every failure of the provider, the same message a rejected code gives.
\<close>

theorem provider_failure_keeps_pending_phone:
  fixes this :: "'u TwilioStrategy" and request :: "'u request"
  defines "cookie \<equiv> \<lambda>options request msg.
     session_flash (sessionErrorKey options) (Text msg) (Cookie request)"
  assumes "no_principal options request"
    and "successRedirect options = Some target" and "target \<noteq> []"
    and "submitted this request entries phone (Some code)" and "code \<noteq> []"
    and "validateCode this code phone = Inl (Error msg cause)"
  shows "calls (authenticate this request options) = [ValidateCode code phone] \<and>
         (\<forall>failed. failureRedirect options = Some failed \<longrightarrow>
            outcome (authenticate this request options) =
              Thrown (redirect failed (cookie options request msg))) \<and>
         (failureRedirect options = None \<longrightarrow>
            outcome (authenticate this request options) =
              Thrown (AuthorizationError msg (Some (Error msg cause)))) \<and>
         (\<forall>k. k \<noteq> sessionErrorKey options \<longrightarrow>
            map_of (cookie options request msg) k = map_of (Cookie request) k) \<and>
         (\<forall>client service. validateCode this = defaultValidateCode client service \<longrightarrow>
            msg = invalid_code_message)"
proof -
  have "try_block this request (session_read options request) options =
          (Error msg cause, [ValidateCode code phone])"
    using assms(3-7) by (simp add: try_block_with_code)
  with assms(2) have run: "authenticate this request options =
      \<lparr> outcome = Thrown (failure msg request options (Some (Error msg cause))),
        calls = [ValidateCode code phone] \<rparr>"
    by (simp add: authenticate_no_principal unauthenticated_def catch_block_Error)
  have "msg = invalid_code_message"
    if "validateCode this = defaultValidateCode client service" for client service
  proof -
    from that assms(7) have "defaultValidateCode client service code phone = Inl (Error msg cause)"
      by simp
    then show ?thesis
      by (simp add: defaultValidateCode_def split: sum.splits)
  qed
  moreover have "map_of (cookie options request msg) k = map_of (Cookie request) k"
    if "k \<noteq> sessionErrorKey options" for k
    using that by (simp add: cookie_def flashed_error_frame)
  moreover have "calls (authenticate this request options) = [ValidateCode code phone]"
    by (simp add: run)
  moreover have "outcome (authenticate this request options) =
      Thrown (redirect failed (cookie options request msg))"
    if "failureRedirect options = Some failed" for failed
    using that by (simp add: run failure_redirect cookie_def)
  moreover have "outcome (authenticate this request options) =
      Thrown (AuthorizationError msg (Some (Error msg cause)))"
    if "failureRedirect options = None"
    using that by (simp add: run failure_typed)
  ultimately show ?thesis by blast
qed

text \<open>
  The scenario's second request against a provider that cannot be reached.
\<close>

theorem provider_failure_keeps_pending_phone_witness:
  "calls (authenticate unreachable_strategy code_request login_options) =
     [ValidateCode ''123456'' ''+15551234567''] \<and>
   outcome (authenticate unreachable_strategy code_request login_options) =
     Thrown (redirect ''/login''
       [(''twilio:phone'', Flashed (Text ''+15551234567'')),
        (''auth:error'', Flashed (Text invalid_code_message))])"
proof -
  have none: "no_principal login_options code_request"
    by (simp add: no_principal_def scenario_defs session_defs)
  have target: "successRedirect login_options = Some ''/account''"
    by (simp add: login_options_def)
  have form: "submitted unreachable_strategy code_request
      [(''phone'', FString ''555-123-4567''), (''code'', FString ''123456'')]
      ''+15551234567'' (Some ''123456'')"
    by (simp add: submitted_def scenario_defs strategy_defs fromEntries_def read_code_def Let_def)
  have down: "validateCode unreachable_strategy ''123456'' ''+15551234567'' =
      Inl (Error invalid_code_message None)"
    by (simp add: scenario_defs strategy_defs Let_def)
  have failed: "failureRedirect login_options = Some ''/login''"
    by (simp add: login_options_def)
  from provider_failure_keeps_pending_phone [OF none target _ form _ down] failed
  show ?thesis
    by (simp add: scenario_defs session_defs)
qed

text \<open>
  The claim as stated, that a transport failure of the code check gives a message distinct
  from the invalid-code message of a rejected code, fails for the default
  \<^verbatim>\<open>validateCode\<close>: against the unreachable provider the scenario's second request is
  answered exactly as its wrong code is against the provider that rejects it, with the
  invalid-code message flashed.
\<close>

theorem provider_failure_message_counterexample:
  "outcome (authenticate unreachable_strategy wrong_code_request login_options) =
     Thrown (Response 302 (Some ''/login'')
       (Some [(''twilio:phone'', Flashed (Text ''+15551234567'')),
              (''auth:error'', Flashed (Text invalid_code_message))])) \<and>
   outcome (authenticate scenario_strategy wrong_code_request login_options) =
     Thrown (Response 302 (Some ''/login'')
       (Some [(''twilio:phone'', Flashed (Text ''+15551234567'')),
              (''auth:error'', Flashed (Text invalid_code_message))]))"
  by (simp add: authenticate_def unauthenticated_def try_block_def catch_block_def failure_def
      redirect_def scenario_defs session_defs strategy_defs fromEntries_def read_code_def
      falsy_def Let_def)




section \<open>Provider calls\<close>

lemma try_block_calls:
  "snd (try_block this request session options) = [] \<or>
   (\<exists>phone. snd (try_block this request session options) = [SendCode phone]) \<or>
   (\<exists>code phone. snd (try_block this request session options) = [ValidateCode code phone])"
  by (simp add: try_block_def Let_def split: option.split sum.split)

lemma unauthenticated_calls:
  "calls (unauthenticated this request session options) =
     snd (try_block this request session options)"
  by (simp add: unauthenticated_def split: prod.split)

text \<open>
  Claim C9. Whatever the request, the session and the options are, one transition calls
  the provider functions at most once: it makes no call, or exactly one call of
  \<^verbatim>\<open>sendCode\<close>, or exactly one call of \<^verbatim>\<open>validateCode\<close>; never both, never one of
  them twice, whatever the call returned or threw.
\<close>

theorem at_most_one_provider_call:
  "length (calls (authenticate this request options)) \<le> 1 \<and>
   (calls (authenticate this request options) = [] \<or>
    (\<exists>phone. calls (authenticate this request options) = [SendCode phone]) \<or>
    (\<exists>code phone. calls (authenticate this request options) = [ValidateCode code phone]))"
proof -
  let ?made = "calls (authenticate this request options)"
  have shape: "?made = [] \<or> (\<exists>phone. ?made = [SendCode phone]) \<or>
      (\<exists>code phone. ?made = [ValidateCode code phone])"
  proof (cases "session_get (sessionKey options) (getSession request)")
    case (Pair user session)
    show ?thesis
    proof (cases "\<exists>u. user = Some u \<and> truthy_sval u")
      case True
      with Pair have "?made = []"
        by (auto simp: authenticate_def success_def)
      then show ?thesis by simp
    next
      case False
      with Pair have "?made = snd (try_block this request session options)"
        by (cases user) (auto simp: authenticate_def unauthenticated_calls)
      then show ?thesis
        using try_block_calls [of this request session options] by simp
    qed
  qed
  moreover from shape have "length ?made \<le> 1"
    by auto
  ultimately show ?thesis by blast
qed

section \<open>An empty code\<close>

lemma map_of_filter_name:
  "map_of (filter (\<lambda>entry. fst entry \<noteq> name) entries) k =
     (if k = name then None else map_of entries k)"
  by (induction entries) auto

lemma fromEntries_FormData_delete:
  "fromEntries (FormData_delete name entries) k =
     (if k = name then None else fromEntries entries k)"
  by (simp add: fromEntries_def FormData_delete_def rev_filter map_of_filter_name)

text \<open>
  Claim C10. A request carries a phone and a \<^verbatim>\<open>code\<close> field whose value is the empty
  string, and the session holds no principal. Then the code counts as absent: the
  transition makes the one call of \<^verbatim>\<open>sendCode\<close> on the normalized phone and none of
  \<^verbatim>\<open>validateCode\<close>, it is the very transition of the same request with the \<^verbatim>\<open>code\<close>
  field removed from its form, and when \<^verbatim>\<open>sendCode\<close> succeeds it throws the redirect
  to \<^verbatim>\<open>successRedirect\<close> with the phone flashed under the pending-phone key.
\<close>

theorem empty_code_requests_code:
  fixes this :: "'u TwilioStrategy" and request :: "'u request"
  assumes "no_principal options request"
    and "successRedirect options = Some target" and "target \<noteq> []"
    and "submitted this request entries phone (Some [])"
  shows "calls (authenticate this request options) = [SendCode phone] \<and>
         authenticate this request options =
           authenticate this (request\<lparr>formData := Inr (FormData_delete ''code'' entries)\<rparr>) options \<and>
         (\<forall>sent. sendCode this phone = Inr sent \<longrightarrow>
            outcome (authenticate this request options) =
              Thrown (redirect target
                (commitSession
                  (session_unset (sessionErrorKey options)
                    (session_flash (sessionPhoneKey this) (Text phone)
                      (session_read options request))))))"
proof -
  let ?request' = "request\<lparr>formData := Inr (FormData_delete ''code'' entries)\<rparr>"
  let ?session = "session_read options request"
  have empty: "falsy (Some [])"
    by (simp add: falsy_def)
  note block = try_block_phone_only [OF assms(2,3,4) empty, of ?session]
  have run: "authenticate this request options =
      unauthenticated this request ?session options"
    using assms(1) by (rule authenticate_no_principal)
  have none': "no_principal options ?request'"
    using assms(1) by (simp add: no_principal_def getSession_def)
  have session': "session_read options ?request' = ?session"
    by (simp add: session_read_def getSession_def)
  have form': "submitted this ?request' (FormData_delete ''code'' entries) phone None"
    using assms(4) by (simp add: submitted_def fromEntries_FormData_delete read_code_def)
  have absent: "falsy None"
    by (simp add: falsy_def)
  note block' = try_block_phone_only [OF assms(2,3) form' absent, of ?session]
  have run': "authenticate this ?request' options =
      unauthenticated this ?request' ?session options"
    using authenticate_no_principal [OF none', of this] by (simp add: session')
  have same_catch: "catch_block e ?request' options = catch_block e request options" for e
    by (simp add: catch_block_def failure_def getSession_def)
  have "calls (authenticate this request options) = [SendCode phone]"
    by (simp add: run unauthenticated_def block split: sum.split)
  moreover have "authenticate this request options = authenticate this ?request' options"
    by (simp add: run run' unauthenticated_def block block' same_catch split: sum.split)
  moreover have "outcome (authenticate this request options) =
      Thrown (redirect target
        (commitSession
          (session_unset (sessionErrorKey options)
            (session_flash (sessionPhoneKey this) (Text phone) ?session))))"
    if "sendCode this phone = Inr sent" for sent
    using that by (simp add: run unauthenticated_def block catch_block_redirect)
  ultimately show ?thesis by blast
qed

text \<open>
  The scenario's form with an empty code: a new code is requested and the phone flashed
  again.
\<close>

theorem empty_code_requests_code_witness:
  "calls (authenticate scenario_strategy empty_code_request login_options) =
     [SendCode ''+15551234567''] \<and>
   outcome (authenticate scenario_strategy empty_code_request login_options) =
     Thrown (redirect ''/account'' [(''twilio:phone'', Flashed (Text ''+15551234567''))])"
proof -
  have none: "no_principal login_options empty_code_request"
    by (simp add: no_principal_def scenario_defs session_defs)
  have target: "successRedirect login_options = Some ''/account''"
    by (simp add: login_options_def)
  have form: "submitted scenario_strategy empty_code_request
      [(''phone'', FString ''555-123-4567''), (''code'', FString [])] ''+15551234567'' (Some [])"
    by (simp add: submitted_def scenario_defs strategy_defs fromEntries_def read_code_def Let_def)
  have sent: "sendCode scenario_strategy ''+15551234567'' = Inr ()"
    by (simp add: scenario_defs strategy_defs Let_def)
  have read: "session_read login_options empty_code_request = pending_session"
    by (simp add: session_read_def scenario_defs session_defs)
  have keys: "sessionPhoneKey scenario_strategy = ''twilio:phone''"
    "sessionErrorKey login_options = ''auth:error''"
    by (simp_all add: scenario_defs strategy_defs Let_def)
  have nonempty: "''/account'' \<noteq> []"
    by simp
  from empty_code_requests_code [OF none target nonempty form] sent
  have made: "calls (authenticate scenario_strategy empty_code_request login_options) =
      [SendCode ''+15551234567'']"
    and thrown: "outcome (authenticate scenario_strategy empty_code_request login_options) =
      Thrown (redirect ''/account''
        (commitSession
          (session_unset (sessionErrorKey login_options)
            (session_flash (sessionPhoneKey scenario_strategy) (Text ''+15551234567'')
              (session_read login_options empty_code_request)))))"
    by blast+
  from thrown have "outcome (authenticate scenario_strategy empty_code_request login_options) =
      Thrown (redirect ''/account'' [(''twilio:phone'', Flashed (Text ''+15551234567''))])"
    by (simp add: read keys pending_session_def session_defs)
  with made show ?thesis
    by simp
qed

end
